theory Spec2Isabelle
  imports Main
begin

section \<open>The strictness levels of \<open>core/StrictLevel.h\<close>\<close>

text \<open>
  \<open>enum class StrictLevel\<close> of namespace \<open>sorbet::core\<close>: nine enumerators, in the order
  of the header. The enumerators \<open>None\<close> and \<open>Max\<close> carry the suffix \<open>_level\<close>, since
  \<open>None\<close> and \<open>Max\<close> are constants of HOL already.
\<close>

datatype StrictLevel =
    Internal
  | None_level
  | Ignore
  | Stripe
  | Typed
  | Strict
  | Strong
  | Max_level
  | Autogenerated

text \<open>
  The explicit discriminant of each enumerator (\<open>Internal = 0\<close>, ..., \<open>Max = 7\<close>,
  \<open>Autogenerated = 10\<close>): the value \<open>static_cast<int>\<close> yields. The enumeration names
  no underlying type, so it is \<open>int\<close>; every discriminant lies in \<open>0..10\<close> and
  nothing computes with them, so they are read as mathematical integers.
\<close>

fun rankOf :: "StrictLevel \<Rightarrow> int" where
  "rankOf Internal = 0"
| "rankOf None_level = 1"
| "rankOf Ignore = 2"
| "rankOf Stripe = 3"
| "rankOf Typed = 4"
| "rankOf Strict = 5"
| "rankOf Strong = 6"
| "rankOf Max_level = 7"
| "rankOf Autogenerated = 10"

section \<open>The operations named by the specification\<close>

text \<open>
  The header declares the enumeration only: \<open>rankOf\<close> above is the conversion of an
  enumerator to its discriminant, and the header has no function for the other three
  operations of the specification. They are defined here in the specification's words;
  they agree with the built-in operators of C++ on a scoped enumeration
  (\<open><\<close>, \<open>==\<close>, \<open>>=\<close>), which compare the discriminants.
\<close>

datatype Ordering = Less | Equal | Greater

text \<open>
  Modelled from the spec: the header defines no function \<open>compare\<close>. The specification:
  "\<open>compare(a, b) -> {less, equal, greater}\<close>: total order by rank [...] comparison is
  purely numeric, with no special-cased semantic override."
\<close>

definition compare :: "StrictLevel \<Rightarrow> StrictLevel \<Rightarrow> Ordering" where
  "compare a b =
     (if rankOf a < rankOf b then Less
      else if rankOf a = rankOf b then Equal
      else Greater)"

text \<open>
  Modelled from the spec: the header defines no function \<open>atLeast\<close>. The specification:
  "\<open>atLeast(level, threshold) -> bool\<close>: \<open>rankOf(level) >= rankOf(threshold)\<close>."
  Named \<open>atLeast_level\<close>, since \<open>atLeast\<close> is the interval constant of HOL.
\<close>

definition atLeast_level :: "StrictLevel \<Rightarrow> StrictLevel \<Rightarrow> bool" where
  "atLeast_level level threshold = (rankOf level \<ge> rankOf threshold)"

text \<open>
  Modelled from the spec: the header defines no function \<open>isInternal\<close>. The
  specification: "\<open>isInternal(level) -> bool\<close>: true only for \<open>Internal\<close>".
\<close>

definition isInternal :: "StrictLevel \<Rightarrow> bool" where
  "isInternal level = (level = Internal)"

section \<open>Facts about the ranks\<close>

lemma rankOf_inject: "rankOf a = rankOf b \<Longrightarrow> a = b"
  by (cases a; cases b; simp)

lemma rankOf_Internal_least: "a \<noteq> Internal \<Longrightarrow> 0 < rankOf a"
  by (cases a) simp_all

lemma rankOf_cases:
  "rankOf a \<in> {0, 1, 2, 3, 4, 5, 6, 7, 10}"
  by (cases a) simp_all

lemma all_levels:
  "(UNIV :: StrictLevel set) =
     {Internal, None_level, Ignore, Stripe, Typed, Strict, Strong, Max_level, Autogenerated}"
proof (rule set_eqI)
  fix l :: StrictLevel
  show "l \<in> UNIV \<longleftrightarrow>
    l \<in> {Internal, None_level, Ignore, Stripe, Typed, Strict, Strong, Max_level, Autogenerated}"
    by (cases l) simp_all
qed

lemma range_rankOf: "range rankOf = {0, 1, 2, 3, 4, 5, 6, 7, 10}"
  by (subst all_levels) simp

lemma compare_Less_iff: "compare a b = Less \<longleftrightarrow> rankOf a < rankOf b"
  by (simp add: compare_def)

lemma compare_Equal_iff: "compare a b = Equal \<longleftrightarrow> rankOf a = rankOf b"
  by (simp add: compare_def)

lemma compare_Greater_iff: "compare a b = Greater \<longleftrightarrow> rankOf b < rankOf a"
  by (auto simp add: compare_def)

section \<open>The rank table\<close>

text \<open>
  Claim C1. The rank of each level is the one of the table: Internal 0, None 1,
  Ignore 2, Stripe 3, Typed 4, Strict 5, Strong 6, Max 7, Autogenerated 10.
  \<open>rankOf\<close> is a total function on the nine levels (it is defined by one equation
  for each constructor, and the nine constructors are all the levels there are), and
  it is a bijection between the levels and the nine ranks: no two levels share a rank.
\<close>

theorem rankOf_table_bijective:
  "rankOf Internal = 0 \<and> rankOf None_level = 1 \<and> rankOf Ignore = 2 \<and>
   rankOf Stripe = 3 \<and> rankOf Typed = 4 \<and> rankOf Strict = 5 \<and>
   rankOf Strong = 6 \<and> rankOf Max_level = 7 \<and> rankOf Autogenerated = 10 \<and>
   (UNIV :: StrictLevel set) =
     {Internal, None_level, Ignore, Stripe, Typed, Strict, Strong, Max_level, Autogenerated} \<and>
   bij_betw rankOf UNIV {0, 1, 2, 3, 4, 5, 6, 7, 10}"
proof -
  have "inj rankOf"
    by (rule injI) (rule rankOf_inject)
  then have "bij_betw rankOf UNIV {0, 1, 2, 3, 4, 5, 6, 7, 10}"
    by (simp add: bij_betw_def range_rankOf)
  with all_levels show ?thesis
    by simp
qed

text \<open>
  Claim C2. The rank of Autogenerated (10) is strictly greater than the rank of
  Max (7), and so \<open>atLeast(Autogenerated, Max)\<close> is true. Nothing overrides the
  numeric comparison for the outlier: with Autogenerated as the level or as the
  threshold, \<open>atLeast\<close> against any level \<open>t\<close> is the comparison of the two ranks.
\<close>

theorem Autogenerated_above_Max:
  "rankOf Autogenerated = 10 \<and> rankOf Max_level = 7 \<and>
   rankOf Max_level < rankOf Autogenerated \<and>
   atLeast_level Autogenerated Max_level \<and>
   (atLeast_level Autogenerated t \<longleftrightarrow> rankOf Autogenerated \<ge> rankOf t) \<and>
   (atLeast_level t Autogenerated \<longleftrightarrow> rankOf t \<ge> rankOf Autogenerated)"
  by (simp add: atLeast_level_def)

section \<open>The order of the levels\<close>

text \<open>
  Claim C3. \<open>compare\<close> is decided by the ranks, and it is a total order on the nine
  levels. For every pair exactly one of the results less, equal, greater holds;
  \<open>compare a a\<close> is equal; swapping the arguments swaps less and greater, and two
  levels neither of which is greater than the other are the same level
  (antisymmetry); less, and not-greater, are transitive. The variables range over
  all nine levels, Autogenerated among them.
\<close>

theorem compare_total_order:
  "(compare a b = Less \<longleftrightarrow> rankOf a < rankOf b) \<and>
   (compare a b = Equal \<longleftrightarrow> rankOf a = rankOf b) \<and>
   (compare a b = Greater \<longleftrightarrow> rankOf a > rankOf b) \<and>
   ((compare a b = Less \<and> compare a b \<noteq> Equal \<and> compare a b \<noteq> Greater) \<or>
    (compare a b = Equal \<and> compare a b \<noteq> Less \<and> compare a b \<noteq> Greater) \<or>
    (compare a b = Greater \<and> compare a b \<noteq> Less \<and> compare a b \<noteq> Equal)) \<and>
   compare a a = Equal \<and>
   (compare a b = Less \<longleftrightarrow> compare b a = Greater) \<and>
   (compare a b \<noteq> Greater \<and> compare b a \<noteq> Greater \<longrightarrow> a = b) \<and>
   (compare a b = Less \<and> compare b c = Less \<longrightarrow> compare a c = Less) \<and>
   (compare a b \<noteq> Greater \<and> compare b c \<noteq> Greater \<longrightarrow> compare a c \<noteq> Greater)"
proof -
  have by_rank:
    "(compare a b = Less \<longleftrightarrow> rankOf a < rankOf b) \<and>
     (compare a b = Equal \<longleftrightarrow> rankOf a = rankOf b) \<and>
     (compare a b = Greater \<longleftrightarrow> rankOf a > rankOf b)"
    by (simp add: compare_Less_iff compare_Equal_iff compare_Greater_iff)
  have exactly_one:
    "(compare a b = Less \<and> compare a b \<noteq> Equal \<and> compare a b \<noteq> Greater) \<or>
     (compare a b = Equal \<and> compare a b \<noteq> Less \<and> compare a b \<noteq> Greater) \<or>
     (compare a b = Greater \<and> compare a b \<noteq> Less \<and> compare a b \<noteq> Equal)"
    by (cases "compare a b") simp_all
  have refl: "compare a a = Equal"
    by (simp add: compare_Equal_iff)
  have swap: "compare a b = Less \<longleftrightarrow> compare b a = Greater"
    by (simp add: compare_Less_iff compare_Greater_iff)
  have antisym: "compare a b \<noteq> Greater \<and> compare b a \<noteq> Greater \<longrightarrow> a = b"
  proof
    assume "compare a b \<noteq> Greater \<and> compare b a \<noteq> Greater"
    then have "rankOf a \<le> rankOf b" and "rankOf b \<le> rankOf a"
      by (simp_all add: compare_Greater_iff)
    then have "rankOf a = rankOf b"
      by (rule order_antisym)
    then show "a = b"
      by (rule rankOf_inject)
  qed
  have trans_less: "compare a b = Less \<and> compare b c = Less \<longrightarrow> compare a c = Less"
    by (simp add: compare_Less_iff)
  have trans_le:
    "compare a b \<noteq> Greater \<and> compare b c \<noteq> Greater \<longrightarrow> compare a c \<noteq> Greater"
    by (simp add: compare_Greater_iff)
  from by_rank exactly_one refl swap antisym trans_less trans_le show ?thesis
    by (intro conjI) blast+
qed

theorem compare_total_order_witness:
  "compare Typed Strict = Less \<and> compare Strict Autogenerated = Less \<and>
   compare Typed Autogenerated = Less \<and> compare Autogenerated Typed = Greater \<and>
   compare Max_level Autogenerated \<noteq> Greater \<and> compare Typed Max_level \<noteq> Greater \<and>
   compare Typed Autogenerated \<noteq> Greater"
proof -
  have h1: "compare Typed Strict = Less"
    by (simp add: compare_def)
  have h2: "compare Strict Autogenerated = Less"
    by (simp add: compare_def)
  have h3: "compare Typed Max_level \<noteq> Greater"
    by (simp add: compare_def)
  have h4: "compare Max_level Autogenerated \<noteq> Greater"
    by (simp add: compare_def)
  from h1 h2 compare_total_order [of Typed Strict Autogenerated]
  have c1: "compare Typed Autogenerated = Less"
    by blast
  from c1 compare_total_order [of Typed Autogenerated]
  have c2: "compare Autogenerated Typed = Greater"
    by blast
  from h3 h4 compare_total_order [of Typed Max_level Autogenerated]
  have c3: "compare Typed Autogenerated \<noteq> Greater"
    by blast
  from h1 h2 h3 h4 c1 c2 c3 show ?thesis
    by simp
qed

text \<open>
  Claim C4. Internal has the strictly lowest rank: for every level \<open>L\<close> other than
  Internal, \<open>compare(Internal, L)\<close> is less.
\<close>

theorem Internal_minimal:
  "L \<noteq> Internal \<Longrightarrow> compare Internal L = Less"
  by (simp add: compare_Less_iff rankOf_Internal_least)

theorem Internal_minimal_witness:
  "None_level \<noteq> Internal \<and> compare Internal None_level = Less \<and>
   Autogenerated \<noteq> Internal \<and> compare Internal Autogenerated = Less"
proof -
  have n: "None_level \<noteq> Internal" and a: "Autogenerated \<noteq> Internal"
    by simp_all
  from n a Internal_minimal [OF n] Internal_minimal [OF a] show ?thesis
    by simp
qed

text \<open>
  Claim C5. Max is strictly above every level of the standard band: for each \<open>L\<close>
  among None, Ignore, Stripe, Typed, Strict and Strong, \<open>compare(L, Max)\<close> is less.
\<close>

theorem Max_above_standard_band:
  "L \<in> {None_level, Ignore, Stripe, Typed, Strict, Strong} \<Longrightarrow>
   compare L Max_level = Less"
  by (auto simp add: compare_Less_iff)

theorem Max_above_standard_band_witness:
  "Strong \<in> {None_level, Ignore, Stripe, Typed, Strict, Strong} \<and>
   compare Strong Max_level = Less"
proof -
  have m: "Strong \<in> {None_level, Ignore, Stripe, Typed, Strict, Strong}"
    by simp
  from m Max_above_standard_band [OF m] show ?thesis
    by simp
qed

section \<open>Thresholds\<close>

text \<open>
  Claim C6. \<open>atLeast(level, threshold)\<close> is true exactly when the rank of the level is
  greater than or equal to the rank of the threshold. In particular
  \<open>atLeast(Strict, Typed)\<close> is true, \<open>atLeast(Typed, Strict)\<close> is false,
  \<open>compare(None, Ignore)\<close> is less, and the rank of Strong is 6.
\<close>

theorem atLeast_level_by_rank:
  "(atLeast_level level threshold \<longleftrightarrow> rankOf level \<ge> rankOf threshold) \<and>
   atLeast_level Strict Typed \<and>
   \<not> atLeast_level Typed Strict \<and>
   compare None_level Ignore = Less \<and>
   rankOf Strong = 6"
  by (simp add: atLeast_level_def compare_def)

text \<open>
  Claim C7. \<open>isInternal\<close> is true of Internal and false of each of the other eight
  levels.
\<close>

theorem isInternal_only_Internal:
  "isInternal Internal \<and>
   \<not> isInternal None_level \<and> \<not> isInternal Ignore \<and> \<not> isInternal Stripe \<and>
   \<not> isInternal Typed \<and> \<not> isInternal Strict \<and> \<not> isInternal Strong \<and>
   \<not> isInternal Max_level \<and> \<not> isInternal Autogenerated \<and>
   (isInternal L \<longleftrightarrow> L = Internal) \<and>
   (isInternal L \<longleftrightarrow> rankOf L = 0)"
proof -
  have "rankOf L = 0 \<longleftrightarrow> L = Internal"
    by (cases L) simp_all
  then show ?thesis
    by (simp add: isInternal_def)
qed

text \<open>
  Claim C8. \<open>atLeast\<close> is reflexive: \<open>atLeast(L, L)\<close> is true for every level \<open>L\<close>.
\<close>

theorem atLeast_level_refl:
  "atLeast_level L L"
  by (simp add: atLeast_level_def)

text \<open>
  Claim C10. Two levels that compare equal are the same level. No level has rank 8
  or rank 9: the ranks in use are exactly 0, 1, 2, 3, 4, 5, 6, 7 and 10.
\<close>

theorem compare_Equal_identity:
  "(compare a b = Equal \<longrightarrow> a = b) \<and>
   rankOf L \<noteq> 8 \<and> rankOf L \<noteq> 9 \<and>
   range rankOf = {0, 1, 2, 3, 4, 5, 6, 7, 10}"
proof -
  have "compare a b = Equal \<longrightarrow> a = b"
    by (simp add: compare_Equal_iff rankOf_inject)
  moreover have "rankOf L \<noteq> 8 \<and> rankOf L \<noteq> 9"
    using rankOf_cases [of L] by auto
  ultimately show ?thesis
    by (simp add: range_rankOf)
qed

theorem compare_Equal_identity_witness:
  "compare Autogenerated Autogenerated = Equal \<and>
   rankOf Autogenerated \<noteq> 8 \<and> rankOf Autogenerated \<noteq> 9 \<and>
   (8::int) \<notin> range rankOf \<and> (9::int) \<notin> range rankOf"
proof -
  have e: "compare Autogenerated Autogenerated = Equal"
    by (simp add: compare_def)
  from compare_Equal_identity [of Autogenerated Autogenerated Autogenerated]
  have "range rankOf = {0, 1, 2, 3, 4, 5, 6, 7, 10}"
    and "rankOf Autogenerated \<noteq> 8" and "rankOf Autogenerated \<noteq> 9"
    by blast+
  with e show ?thesis
    by simp
qed

end
